theory Spec2Isabelle
  imports Complex_Main "HOL-Library.AList" "HOL-Library.Sublist"
begin

section \<open>Body-language detector and session API\<close>

text \<open>
  A shallow embedding of \<^verbatim>\<open>body_language_detector.py\<close> and
  \<^verbatim>\<open>body_language_api.py\<close>.

  Conventions of the model:
  \<^item> Python floats are exact reals; Python ints are \<open>int\<close>.
  \<^item> A Python \<^verbatim>\<open>dict\<close> is an association list in insertion order
    (\<open>AList.update\<close> overwrites in place or appends, \<open>AList.delete\<close> removes,
    \<open>map_of\<close> looks up), a Python \<^verbatim>\<open>list\<close> is a list.
  \<^item> A Python \<^verbatim>\<open>str\<close> is a \<open>string\<close> holding its UTF-8 bytes.
  \<^item> \<^verbatim>\<open>None\<close> is \<open>None\<close>; an exception is a value (\<open>Inl\<close> of a sum, or
    \<open>None\<close> where the source catches everything and discards the exception).
  \<^item> The external collaborators (MediaPipe Holistic, the pickled classifier, OpenCV and
    base64 coding, the clock) are parameters.
\<close>

subsection \<open>\<^verbatim>\<open>body_language_detector.py\<close>\<close>

text \<open>One MediaPipe landmark: the attributes \<^verbatim>\<open>x\<close>, \<^verbatim>\<open>y\<close>, \<^verbatim>\<open>z\<close> and
  \<^verbatim>\<open>visibility\<close> that the extractor reads (prefixed, so that \<open>x\<close>, \<open>y\<close>, \<open>z\<close> stay
  free for variables).\<close>

record landmark =
  lm_x :: real
  lm_y :: real
  lm_z :: real
  lm_visibility :: real

text \<open>
  The MediaPipe results object. \<^verbatim>\<open>results.pose_landmarks\<close> is \<^verbatim>\<open>None\<close> or a landmark
  list message (always truthy), whose \<^verbatim>\<open>.landmark\<close> field is the sequence iterated.
\<close>

record results =
  pose_landmarks :: "landmark list option"
  face_landmarks :: "landmark list option"

text \<open>\<^verbatim>\<open>_extract_landmarks\<close>: \<^verbatim>\<open>np.array(pose + face).flatten().tolist()\<close> of rows of four
  numbers is their concatenation.\<close>

definition extract_landmarks :: "results \<Rightarrow> real list option" where
  "extract_landmarks res =
     (case pose_landmarks res of
        None \<Rightarrow> None
      | Some ps \<Rightarrow>
          let pose = map (\<lambda>l. [lm_x l, lm_y l, lm_z l, lm_visibility l]) ps;
              face = (case face_landmarks res of
                        Some fs \<Rightarrow> map (\<lambda>l. [lm_x l, lm_y l, lm_z l, 0]) fs
                      | None \<Rightarrow> replicate 468 [0, 0, 0, 0])
          in Some (concat (pose @ face)))"

text \<open>
  The pickled scikit-learn model: \<^verbatim>\<open>predict([v])[0]\<close>, \<^verbatim>\<open>predict_proba([v])[0]\<close> and
  \<^verbatim>\<open>classes_\<close>. A call that raises returns \<open>None\<close> (the caller catches every exception).
\<close>

record classifier =
  predict :: "real list \<Rightarrow> string option"
  predict_proba :: "real list \<Rightarrow> real list option"
  classes :: "string list"

text \<open>The prediction dictionary \<^verbatim>\<open>{'class': ..., 'confidence': ...}\<close>.\<close>

record prediction =
  class_label :: string
  confidence :: real

text \<open>\<^verbatim>\<open>list.index\<close>: the first position of the value, \<^verbatim>\<open>ValueError\<close> (here \<open>None\<close>) when
  absent.\<close>

fun list_index :: "'a list \<Rightarrow> 'a \<Rightarrow> nat option" where
  "list_index [] v = None"
| "list_index (a # as) v =
     (if a = v then Some 0
      else (case list_index as v of None \<Rightarrow> None | Some i \<Rightarrow> Some (Suc i)))"

text \<open>The body of the \<^verbatim>\<open>try\<close> block of \<^verbatim>\<open>process_frame\<close>; \<open>None\<close> when any of its
  steps raises (\<^verbatim>\<open>predict\<close>, \<^verbatim>\<open>predict_proba\<close>, \<^verbatim>\<open>index\<close>, the subscript).\<close>

definition make_prediction :: "classifier \<Rightarrow> real list \<Rightarrow> prediction option" where
  "make_prediction m pose =
     (case predict m pose of
        None \<Rightarrow> None
      | Some body_language_class \<Rightarrow>
          (case predict_proba m pose of
             None \<Rightarrow> None
           | Some body_language_prob \<Rightarrow>
               (case list_index (classes m) body_language_class of
                  None \<Rightarrow> None
                | Some i \<Rightarrow>
                    if i < length body_language_prob
                    then Some \<lparr>class_label = body_language_class,
                               confidence = body_language_prob ! i\<rparr>
                    else None)))"

text \<open>
  The annotated frame: the input frame, whether the pose skeleton was drawn, and the
  caption written by \<^verbatim>\<open>cv2.putText\<close>.
\<close>

datatype 'img annotated = Annotated 'img bool "prediction option"

text \<open>The detector object: the Holistic estimator and the loaded model
  (\<^verbatim>\<open>self.model\<close> is \<^verbatim>\<open>None\<close> when loading failed).\<close>

record 'img detector =
  holistic :: "'img \<Rightarrow> results"
  model :: "classifier option"

definition process_frame ::
  "'img detector \<Rightarrow> 'img \<Rightarrow> 'img annotated \<times> prediction option" where
  "process_frame d frame =
     (let res = holistic d frame in
      case pose_landmarks res of
        Some _ \<Rightarrow>
          (let pose = extract_landmarks res;
               prediction =
                 (case (model d, pose) of
                    (Some m, Some v) \<Rightarrow> make_prediction m v
                  | _ \<Rightarrow> None)
           in (Annotated frame True prediction, prediction))
      | None \<Rightarrow> (Annotated frame False None, None))"

subsection \<open>JSON values and Python strings\<close>

text \<open>
  The fields of a request body, as \<^verbatim>\<open>request.json\<close> yields them: absent or
  \<^verbatim>\<open>null\<close>, an integer, or a string (session ids are minted as strings and, by the
  source's comment, may come back as numbers; booleans, floats, arrays and objects are
  outside the interface).
\<close>

datatype jval = JNull | JInt int | JStr string

text \<open>Python truthiness (\<^verbatim>\<open>not v\<close> is its negation).\<close>

fun truthy :: "jval \<Rightarrow> bool" where
  "truthy JNull = False"
| "truthy (JInt i) = (i \<noteq> 0)"
| "truthy (JStr s) = (s \<noteq> [])"

definition digit_char :: "nat \<Rightarrow> char" where
  "digit_char n = ''0123456789'' ! n"

fun str_nat :: "nat \<Rightarrow> string" where
  "str_nat n = (if n < 10 then [digit_char n] else str_nat (n div 10) @ [digit_char (n mod 10)])"

declare str_nat.simps [simp del]

definition str_int :: "int \<Rightarrow> string" where
  "str_int i = (if i < 0 then CHR ''-'' # str_nat (nat (- i)) else str_nat (nat i))"

text \<open>\<^verbatim>\<open>str(v)\<close>.\<close>

fun py_str :: "jval \<Rightarrow> string" where
  "py_str JNull = ''None''"
| "py_str (JInt i) = str_int i"
| "py_str (JStr s) = s"

text \<open>\<^verbatim>\<open>int(t)\<close> of a float: truncation towards zero.\<close>

definition py_int :: "real \<Rightarrow> int" where
  "py_int t = (if 0 \<le> t then \<lfloor>t\<rfloor> else \<lceil>t\<rceil>)"

text \<open>\<^verbatim>\<open>s.split(c)\<close> for a one-character separator: never empty.\<close>

fun split_on :: "char \<Rightarrow> string \<Rightarrow> string list" where
  "split_on c [] = [[]]"
| "split_on c (a # as) =
     (if a = c then [] # split_on c as
      else (let r = split_on c as in (a # hd r) # tl r))"

text \<open>\<^verbatim>\<open>data.get(key)\<close> on the request object.\<close>

definition dict_get :: "(string \<times> jval) list \<Rightarrow> string \<Rightarrow> jval" where
  "dict_get d k = (case map_of d k of None \<Rightarrow> JNull | Some v \<Rightarrow> v)"

text \<open>The exceptions the handlers can meet, and \<^verbatim>\<open>str(e)\<close>.
  \<open>No_attribute_split\<close> carries the name of the type that has no \<^verbatim>\<open>split\<close>, \<open>External\<close>
  the message of an exception raised by base64 or OpenCV.\<close>

datatype py_error =
    NoneType_not_subscriptable
  | List_index_out_of_range
  | No_attribute_split string
  | ZeroDivisionError
  | External string

fun str_error :: "py_error \<Rightarrow> string" where
  "str_error NoneType_not_subscriptable =
     CHR 0x27 # ''NoneType'' @ CHR 0x27 # '' object is not subscriptable''"
| "str_error List_index_out_of_range = ''list index out of range''"
| "str_error (No_attribute_split ty) =
     CHR 0x27 # ty @ CHR 0x27 # '' object has no attribute '' @ CHR 0x27 # ''split'' @ [CHR 0x27]"
| "str_error ZeroDivisionError = ''division by zero''"
| "str_error (External msg) = msg"

text \<open>Float division \<^verbatim>\<open>a / b\<close>.\<close>

definition py_truediv :: "real \<Rightarrow> real \<Rightarrow> py_error + real" where
  "py_truediv a b = (if b = 0 then Inl ZeroDivisionError else Inr (a / b))"

subsection \<open>\<^verbatim>\<open>body_language_api.py\<close>: the session store\<close>

text \<open>One entry of the global \<^verbatim>\<open>sessions\<close> dictionary. \<^verbatim>\<open>detections\<close> holds what
  \<^verbatim>\<open>process_frame\<close> returned, so an entry is a prediction or \<^verbatim>\<open>None\<close>.\<close>

record session =
  start_time :: real
  frames_processed :: int
  detections :: "prediction option list"

type_synonym store = "(string \<times> session) list"

text \<open>\<^verbatim>\<open>sessions[session_id]\<close> where \<^verbatim>\<open>session_id in sessions\<close>, \<open>None\<close> otherwise: the
  keys are strings, so only a string can be one.\<close>

fun find_session :: "jval \<Rightarrow> store \<Rightarrow> session option" where
  "find_session (JStr k) sessions = map_of sessions k"
| "find_session _ sessions = None"

definition in_sessions :: "jval \<Rightarrow> store \<Rightarrow> bool" where
  "in_sessions session_id sessions = (find_session session_id sessions \<noteq> None)"

text \<open>
  The tolerant lookup shared by both handlers:
  \<^verbatim>\<open>matching_sessions = [sid for sid in sessions.keys() if str(sid) == str(session_id)]\<close>,
  then \<^verbatim>\<open>session_id = matching_sessions[0]\<close> when the list is not empty.
\<close>

definition resolve_session_id :: "store \<Rightarrow> jval \<Rightarrow> jval" where
  "resolve_session_id sessions session_id =
     (let matching_sessions = filter (\<lambda>sid. sid = py_str session_id) (map fst sessions)
      in (case matching_sessions of [] \<Rightarrow> session_id | sid # _ \<Rightarrow> JStr sid))"

text \<open>\<^verbatim>\<open>start_session\<close>, at clock reading \<open>now\<close>: the response is the session id.\<close>

definition start_session :: "real \<Rightarrow> store \<Rightarrow> string \<times> store" where
  "start_session now sessions =
     (let session_id = str_int (py_int now)
      in (session_id,
          AList.update session_id
            \<lparr>start_time = now, frames_processed = 0, detections = []\<rparr> sessions))"

subsection \<open>\<^verbatim>\<open>analyze_frame\<close>\<close>

text \<open>
  The JSON body and the status of a response of \<^verbatim>\<open>analyze_frame\<close>; a key that the
  body does not carry is \<open>None\<close>, so \<open>fr_prediction = Some None\<close> is
  \<^verbatim>\<open>'prediction': null\<close>.
\<close>

record frame_response =
  fr_status :: nat
  fr_processed_image :: "string option"
  fr_prediction :: "prediction option option"
  fr_error :: "string option"

definition bad_request :: "string \<Rightarrow> frame_response" where
  "bad_request msg =
     \<lparr>fr_status = 400, fr_processed_image = None, fr_prediction = None, fr_error = Some msg\<rparr>"

definition graceful_error :: "string \<Rightarrow> frame_response" where
  "graceful_error msg =
     \<lparr>fr_status = 200, fr_processed_image = Some [], fr_prediction = Some None,
      fr_error = Some msg\<rparr>"

text \<open>
  The image transport: \<open>decode\<close> is \<^verbatim>\<open>base64.b64decode\<close>, \<^verbatim>\<open>np.frombuffer\<close> and
  \<^verbatim>\<open>cv2.imdecode\<close> (\<open>Inl\<close> the message of an exception, \<open>Inr None\<close> an undecodable
  image), \<open>encode\<close> is \<^verbatim>\<open>cv2.imencode\<close> and \<^verbatim>\<open>base64.b64encode\<close>.
\<close>

record 'img env =
  decode :: "string \<Rightarrow> string + 'img option"
  encode :: "'img annotated \<Rightarrow> string"
  detector :: "'img detector"

text \<open>\<^verbatim>\<open>image_data.split(',')[1]\<close> and the decoding, inside the inner \<^verbatim>\<open>try\<close>.\<close>

definition decode_frame :: "'img env \<Rightarrow> jval \<Rightarrow> py_error + 'img option" where
  "decode_frame e image_data =
     (case image_data of
        JStr s \<Rightarrow>
          (let parts = split_on CHR '','' s
           in if length parts < 2 then Inl List_index_out_of_range
              else (case decode e (parts ! 1) of
                      Inl msg \<Rightarrow> Inl (External msg)
                    | Inr frame \<Rightarrow> Inr frame))
      | JInt _ \<Rightarrow> Inl (No_attribute_split ''int'')
      | JNull \<Rightarrow> Inl (No_attribute_split ''NoneType''))"

text \<open>The update of the session entry: \<^verbatim>\<open>detections.append(prediction)\<close> and
  \<^verbatim>\<open>frames_processed += 1\<close>.\<close>

definition record_detection :: "prediction option \<Rightarrow> session \<Rightarrow> session" where
  "record_detection p s =
     s\<lparr>detections := detections s @ [p], frames_processed := frames_processed s + 1\<rparr>"

definition analyze_frame ::
  "'img env \<Rightarrow> store \<Rightarrow> (string \<times> jval) list option \<Rightarrow> frame_response \<times> store" where
  "analyze_frame e sessions data =
     (case data of
        None \<Rightarrow> (bad_request ''No data provided'', sessions)
      | Some d \<Rightarrow>
          if d = [] then (bad_request ''No data provided'', sessions)
          else
            let session_id = dict_get d ''session_id'';
                image_data = dict_get d ''image_data''
            in if \<not> truthy session_id then (bad_request ''Missing session_id'', sessions)
               else if \<not> truthy image_data then (bad_request ''Missing image_data'', sessions)
               else
                 let session_id = resolve_session_id sessions session_id
                 in if \<not> in_sessions session_id sessions
                    then (graceful_error ''Session not found or expired'', sessions)
                    else
                      (case decode_frame e image_data of
                         Inl err \<Rightarrow>
                           (graceful_error (''Error processing frame: '' @ str_error err),
                            sessions)
                       | Inr None \<Rightarrow> (bad_request ''Invalid image data'', sessions)
                       | Inr (Some frame) \<Rightarrow>
                           (let (processed_frame, prediction) =
                                  process_frame (detector e) frame;
                                sessions' =
                                  (if in_sessions session_id sessions
                                   then AList.map_entry (py_str session_id)
                                          (record_detection prediction) sessions
                                   else sessions)
                            in (\<lparr>fr_status = 200,
                                 fr_processed_image =
                                   Some (''data:image/jpeg;base64,'' @ encode e processed_frame),
                                 fr_prediction = Some prediction,
                                 fr_error = None\<rparr>,
                                sessions'))))"

subsection \<open>\<^verbatim>\<open>generate_feedback\<close>\<close>

text \<open>One value of \<^verbatim>\<open>gesture_percentages\<close>.\<close>

record gesture =
  gesture_name :: string
  gesture_count :: int
  gesture_percentage :: real

type_synonym gesture_dict = "(string \<times> gesture) list"

text \<open>The three non-ASCII characters of the feedback text, in UTF-8: the check mark
  U+2713, the ballot cross U+2717 and the bullet U+2022.\<close>

definition check_mark :: string where
  "check_mark = [CHR 0xE2, CHR 0x9C, CHR 0x93]"

definition ballot_x :: string where
  "ballot_x = [CHR 0xE2, CHR 0x9C, CHR 0x97]"

definition bullet :: string where
  "bullet = [CHR 0xE2, CHR 0x80, CHR 0xA2]"

definition newline :: string where
  "newline = [CHR 0x0A]"

definition open_palm_positive :: string where
  "open_palm_positive = check_mark @ '' Your open palm gestures convey openness and honesty.''"

definition open_palm_corrective :: string where
  "open_palm_corrective =
     ballot_x @ '' Try using more open palm gestures to appear more trustworthy.''"

definition thumbs_up_positive :: string where
  "thumbs_up_positive =
     check_mark @ '' Your positive gestures like thumbs up help reinforce key points.''"

definition pointing_positive :: string where
  "pointing_positive = check_mark @ '' Your pointing gestures effectively direct attention.''"

definition crossed_arms_corrective :: string where
  "crossed_arms_corrective =
     ballot_x @ '' Reduce crossed arms posture as it can appear defensive or closed off.''"

definition posture_positive :: string where
  "posture_positive =
     check_mark @ '' You maintained an open posture throughout most of your presentation.''"

definition victorious_corrective :: string where
  "victorious_corrective =
     ballot_x @ '' Limit victory signs as they may appear unprofessional in formal settings.''"

definition general_advice :: string where
  "general_advice =
     newline @ ''General recommendations:'' @ newline
     @ bullet @ '' Maintain balanced posture and avoid slouching'' @ newline
     @ bullet @ '' Use purposeful hand movements to emphasize points'' @ newline
     @ bullet @ '' Keep steady eye contact with your audience'' @ newline
     @ bullet @ '' Vary your gestures to maintain audience engagement'' @ newline"

text \<open>The guard \<^verbatim>\<open>name in gesture_percentages and
  gesture_percentages[name]['gesture_percentage'] > limit\<close>.\<close>

definition exceeds :: "gesture_dict \<Rightarrow> string \<Rightarrow> real \<Rightarrow> bool" where
  "exceeds gesture_percentages name limit =
     (case map_of gesture_percentages name of
        None \<Rightarrow> False
      | Some g \<Rightarrow> gesture_percentage g > limit)"

definition generate_feedback :: "gesture_dict \<Rightarrow> string" where
  "generate_feedback gesture_percentages =
     (let feedback = ''Based on your body language analysis:'' @ newline @ newline;
          feedback =
            (if exceeds gesture_percentages ''Open Palm'' 20
             then feedback @ open_palm_positive @ newline
             else feedback @ open_palm_corrective @ newline);
          feedback =
            (if exceeds gesture_percentages ''Thumbs Up'' 10
             then feedback @ thumbs_up_positive @ newline
             else feedback);
          feedback =
            (if exceeds gesture_percentages ''Pointing'' 10
             then feedback @ pointing_positive @ newline
             else feedback);
          feedback =
            (if exceeds gesture_percentages ''Crossed Arms'' 15
             then feedback @ crossed_arms_corrective @ newline
             else feedback @ posture_positive @ newline);
          feedback =
            (if exceeds gesture_percentages ''Victorious'' 15
             then feedback @ victorious_corrective @ newline
             else feedback)
      in feedback @ general_advice)"

subsection \<open>\<^verbatim>\<open>stop_session\<close>\<close>

text \<open>
  The tally loop over \<^verbatim>\<open>session_data['detections']\<close>. The subscript
  \<^verbatim>\<open>detection['class']\<close> raises \<^verbatim>\<open>TypeError\<close> on an entry that is \<^verbatim>\<open>None\<close>.
\<close>

fun count_gestures ::
  "(string \<times> int) list \<Rightarrow> prediction option list \<Rightarrow> py_error + (string \<times> int) list" where
  "count_gestures gesture_counts [] = Inr gesture_counts"
| "count_gestures gesture_counts (None # ds) = Inl NoneType_not_subscriptable"
| "count_gestures gesture_counts (Some detection # ds) =
     (let gesture = class_label detection;
          gesture_counts =
            (if map_of gesture_counts gesture = None
             then AList.update gesture 0 gesture_counts
             else gesture_counts);
          gesture_counts = AList.map_entry gesture (\<lambda>c. c + 1) gesture_counts
      in count_gestures gesture_counts ds)"

text \<open>The percentage loop over \<^verbatim>\<open>gesture_counts.items()\<close>.\<close>

fun calculate_percentages ::
  "int \<Rightarrow> gesture_dict \<Rightarrow> (string \<times> int) list \<Rightarrow> py_error + gesture_dict" where
  "calculate_percentages total_frames gesture_percentages [] = Inr gesture_percentages"
| "calculate_percentages total_frames gesture_percentages ((gesture, count) # items) =
     (case py_truediv (real_of_int count) (real_of_int total_frames) of
        Inl err \<Rightarrow> Inl err
      | Inr q \<Rightarrow>
          calculate_percentages total_frames
            (AList.update gesture
               \<lparr>gesture_name = gesture, gesture_count = count, gesture_percentage = q * 100\<rparr>
               gesture_percentages)
            items)"

text \<open>\<^verbatim>\<open>gesture_percentages.get(name, {'gesture_name': name, 'gesture_count': 0,
  'gesture_percentage': 0})\<close>.\<close>

definition get_gesture :: "gesture_dict \<Rightarrow> string \<Rightarrow> gesture" where
  "get_gesture gesture_percentages name =
     (case map_of gesture_percentages name of
        None \<Rightarrow> \<lparr>gesture_name = name, gesture_count = 0, gesture_percentage = 0\<rparr>
      | Some g \<Rightarrow> g)"

definition allowed_gestures :: "gesture_dict \<Rightarrow> gesture_dict" where
  "allowed_gestures gesture_percentages =
     [(''Open Palm'', get_gesture gesture_percentages ''Open Palm''),
      (''Thumbs Up'', get_gesture gesture_percentages ''Thumbs Up''),
      (''Pointing'', get_gesture gesture_percentages ''Pointing'')]"

definition disallowed_gestures :: "gesture_dict \<Rightarrow> gesture_dict" where
  "disallowed_gestures gesture_percentages =
     [(''Crossed Arms'', get_gesture gesture_percentages ''Crossed Arms''),
      (''Victorious'', get_gesture gesture_percentages ''Victorious'')]"

text \<open>The score: \<^verbatim>\<open>sum([g['gesture_percentage'] for g in d.values()])\<close> over both
  buckets, then the clamp.\<close>

definition overall_score :: "int \<Rightarrow> gesture_dict \<Rightarrow> gesture_dict \<Rightarrow> real" where
  "overall_score total_frames allowed disallowed =
     (if total_frames > 0
      then (let allowed_percentage = sum_list (map (gesture_percentage \<circ> snd) allowed);
                disallowed_percentage = sum_list (map (gesture_percentage \<circ> snd) disallowed)
            in min 100 (max 0 (50 + (allowed_percentage - disallowed_percentage) / 2)))
      else 0)"

text \<open>
  The JSON body and the status of a response of \<^verbatim>\<open>stop_session\<close>; a key that the body
  does not carry is \<open>None\<close>. \<open>sr_metrics\<close> is the \<^verbatim>\<open>'metrics'\<close> key, always the empty
  object when present.
\<close>

record stop_response =
  sr_status :: nat
  sr_error :: "string option"
  sr_metrics :: "(string \<times> jval) list option"
  sr_session_id :: "jval option"
  sr_duration :: "real option"
  sr_frames_processed :: "int option"
  sr_gesture_percentages :: "gesture_dict option"
  sr_allowed_gestures :: "gesture_dict option"
  sr_disallowed_gestures :: "gesture_dict option"
  sr_feedback :: "string option"
  sr_overall_score :: "real option"

definition no_fields :: stop_response where
  "no_fields =
     \<lparr>sr_status = 200, sr_error = None, sr_metrics = None, sr_session_id = None,
      sr_duration = None, sr_frames_processed = None, sr_gesture_percentages = None,
      sr_allowed_gestures = None, sr_disallowed_gestures = None, sr_feedback = None,
      sr_overall_score = None\<rparr>"

text \<open>The part of the \<^verbatim>\<open>try\<close> block from \<^verbatim>\<open>gesture_counts = {}\<close> up to the assignment
  of \<^verbatim>\<open>gesture_percentages\<close>: the only statements of the handler that can raise.\<close>

definition gesture_percentages_of :: "session \<Rightarrow> py_error + gesture_dict" where
  "gesture_percentages_of session_data =
     (let gesture_counts = [];
          total_frames = frames_processed session_data
      in if total_frames > 0
         then (case count_gestures gesture_counts (detections session_data) of
                 Inl err \<Rightarrow> Inl err
               | Inr gesture_counts \<Rightarrow> calculate_percentages total_frames [] gesture_counts)
         else Inr [])"

text \<open>
  \<^verbatim>\<open>stop_session\<close> at clock reading \<open>now\<close>. The test \<^verbatim>\<open>session_id not in sessions\<close>
  and the read \<^verbatim>\<open>sessions[session_id]\<close> are one \<open>find_session\<close>. An exception leaves the
  handler through \<^verbatim>\<open>except Exception\<close>, before \<^verbatim>\<open>del sessions[session_id]\<close> is reached.
\<close>

definition stop_session ::
  "real \<Rightarrow> store \<Rightarrow> (string \<times> jval) list option \<Rightarrow> stop_response \<times> store" where
  "stop_session now sessions data =
     (case data of
        None \<Rightarrow> (no_fields\<lparr>sr_error := Some ''No data provided'', sr_metrics := Some []\<rparr>, sessions)
      | Some d \<Rightarrow>
          if d = []
          then (no_fields\<lparr>sr_error := Some ''No data provided'', sr_metrics := Some []\<rparr>, sessions)
          else
            let session_id = dict_get d ''session_id''
            in if \<not> truthy session_id
               then (no_fields\<lparr>sr_error := Some ''Missing session_id'', sr_metrics := Some []\<rparr>,
                     sessions)
               else
                 let session_id = resolve_session_id sessions session_id
                 in (case find_session session_id sessions of
                       None \<Rightarrow>
                         (no_fields
                            \<lparr>sr_error := Some (''Session ID not found: '' @ py_str session_id),
                             sr_metrics := Some [],
                             sr_session_id := Some session_id,
                             sr_duration := Some 0,
                             sr_frames_processed := Some 0,
                             sr_gesture_percentages := Some [],
                             sr_feedback := Some ''No session data available'',
                             sr_overall_score := Some 0\<rparr>,
                          sessions)
                     | Some session_data \<Rightarrow>
                           (let end_time = now;
                                duration = end_time - start_time session_data;
                                total_frames = frames_processed session_data
                            in case gesture_percentages_of session_data of
                                 Inl err \<Rightarrow>
                                   (no_fields\<lparr>sr_status := 500,
                                      sr_error := Some (str_error err)\<rparr>, sessions)
                               | Inr gesture_percentages \<Rightarrow>
                                   (let allowed = allowed_gestures gesture_percentages;
                                        disallowed = disallowed_gestures gesture_percentages;
                                        feedback = generate_feedback gesture_percentages;
                                        score = overall_score total_frames allowed disallowed
                                    in (no_fields
                                          \<lparr>sr_session_id := Some session_id,
                                           sr_duration := Some duration,
                                           sr_frames_processed := Some total_frames,
                                           sr_gesture_percentages := Some gesture_percentages,
                                           sr_allowed_gestures := Some allowed,
                                           sr_disallowed_gestures := Some disallowed,
                                           sr_feedback := Some feedback,
                                           sr_overall_score := Some score\<rparr>,
                                        AList.delete (py_str session_id) sessions)))))"

subsection \<open>Request sequences\<close>

text \<open>
  The life of the server process: the three handlers applied one request at a time to
  the global \<^verbatim>\<open>sessions\<close> dictionary, which starts empty.
\<close>

datatype event =
    Start real
  | Analyze "(string \<times> jval) list option"
  | Stop real "(string \<times> jval) list option"

fun step :: "'img env \<Rightarrow> store \<Rightarrow> event \<Rightarrow> store" where
  "step e sessions (Start now) = snd (start_session now sessions)"
| "step e sessions (Analyze data) = snd (analyze_frame e sessions data)"
| "step e sessions (Stop now data) = snd (stop_session now sessions data)"

definition run :: "'img env \<Rightarrow> event list \<Rightarrow> store" where
  "run e evs = foldl (step e) [] evs"

section \<open>Properties\<close>

subsection \<open>The feature vector\<close>

text \<open>Flattening rows of equal length: the length of the result and the place of every
  cell.\<close>

lemma length_concat_rows:
  "\<forall>r \<in> set rows. length r = n \<Longrightarrow> length (concat rows) = n * length rows"
  by (induction rows) auto

lemma concat_rows_nth:
  assumes "\<forall>r \<in> set rows. length r = n" "i < length rows" "j < n"
  shows "concat rows ! (n * i + j) = rows ! i ! j"
  using assms
proof (induction rows arbitrary: i)
  case Nil
  then show ?case by simp
next
  case (Cons r rows)
  show ?case
  proof (cases i)
    case 0
    with Cons.prems show ?thesis by (simp add: nth_append)
  next
    case (Suc k)
    with Cons.prems have "concat rows ! (n * k + j) = rows ! k ! j"
      using Cons.IH[of k] by simp
    with Suc Cons.prems show ?thesis by (simp add: nth_append add.assoc)
  qed
qed

lemma concat_replicate_zeros:
  "concat (replicate k [0, 0, 0, 0::real]) = replicate (4 * k) 0"
proof (rule replicate_eqI)
  show "length (concat (replicate k [0, 0, 0, 0::real])) = 4 * k"
    by (induction k) simp_all
  show "y = 0" if "y \<in> set (concat (replicate k [0, 0, 0, 0::real]))" for y
    using that by (auto split: if_splits)
qed

lemma extract_landmarks_Some:
  "pose_landmarks res = Some ps \<Longrightarrow>
   extract_landmarks res =
     Some (concat (map (\<lambda>l. [lm_x l, lm_y l, lm_z l, lm_visibility l]) ps)
           @ (case face_landmarks res of
                Some fs \<Rightarrow> concat (map (\<lambda>l. [lm_x l, lm_y l, lm_z l, 0]) fs)
              | None \<Rightarrow> replicate 1872 0))"
  by (simp add: extract_landmarks_def concat_replicate_zeros split: option.splits)

lemma pose_rows_nth:
  assumes "i < length ps" "j < 4"
  shows "concat (map (\<lambda>l. [lm_x l, lm_y l, lm_z l, lm_visibility l]) ps) ! (4 * i + j)
         = [lm_x (ps ! i), lm_y (ps ! i), lm_z (ps ! i), lm_visibility (ps ! i)] ! j"
  using concat_rows_nth[of "map (\<lambda>l. [lm_x l, lm_y l, lm_z l, lm_visibility l]) ps" 4 i j] assms
  by simp

lemma face_rows_nth:
  assumes "i < length fs" "j < 4"
  shows "concat (map (\<lambda>l. [lm_x l, lm_y l, lm_z l, 0]) fs) ! (4 * i + j)
         = [lm_x (fs ! i), lm_y (fs ! i), lm_z (fs ! i), 0] ! j"
  using concat_rows_nth[of "map (\<lambda>l. [lm_x l, lm_y l, lm_z l, 0]) fs" 4 i j] assms
  by simp

lemma length_pose_rows:
  "length (concat (map (\<lambda>l. [lm_x l, lm_y l, lm_z l, lm_visibility l]) ps)) = 4 * length ps"
  using length_concat_rows[of "map (\<lambda>l. [lm_x l, lm_y l, lm_z l, lm_visibility l]) ps" 4]
  by simp

lemma length_face_rows:
  "length (concat (map (\<lambda>l. [lm_x l, lm_y l, lm_z l, 0::real]) fs)) = 4 * length fs"
  using length_concat_rows[of "map (\<lambda>l. [lm_x l, lm_y l, lm_z l, 0::real]) fs" 4]
  by simp

text \<open>
  Claim C2. MediaPipe Holistic reports 33 pose landmarks and, when a face is found, 468
  face landmarks. For such a result with the pose present, \<^verbatim>\<open>_extract_landmarks\<close>
  returns a vector of exactly 2004 numbers: cell \<open>4 * i + j\<close> is value \<open>j\<close> of
  \<open>[x, y, z, visibility]\<close> of pose landmark \<open>i\<close>, cell \<open>132 + 4 * i + j\<close> is value \<open>j\<close> of
  \<open>[x, y, z, 0]\<close> of face landmark \<open>i\<close>, and without a face the cells from 132 on are
  exactly 1872 zeros.
\<close>

theorem feature_vector_layout:
  assumes pose: "pose_landmarks res = Some ps" and n_pose: "length ps = 33"
    and n_face: "\<forall>fs. face_landmarks res = Some fs \<longrightarrow> length fs = 468"
  shows "\<exists>v. extract_landmarks res = Some v \<and> length v = 2004
           \<and> (\<forall>i < 33. \<forall>j < 4. v ! (4 * i + j)
                 = [lm_x (ps ! i), lm_y (ps ! i), lm_z (ps ! i), lm_visibility (ps ! i)] ! j)
           \<and> (case face_landmarks res of
                 Some fs \<Rightarrow>
                   \<forall>i < 468. \<forall>j < 4. v ! (132 + 4 * i + j)
                      = [lm_x (fs ! i), lm_y (fs ! i), lm_z (fs ! i), 0] ! j
               | None \<Rightarrow> drop 132 v = replicate 1872 0)"
proof -
  let ?P = "concat (map (\<lambda>l. [lm_x l, lm_y l, lm_z l, lm_visibility l]) ps)"
  have len: "length ?P = 132"
    using length_pose_rows[of ps] n_pose by simp
  have cells: "(?P @ ys) ! (4 * i + j)
                 = [lm_x (ps ! i), lm_y (ps ! i), lm_z (ps ! i), lm_visibility (ps ! i)] ! j"
    if "i < 33" "j < 4" for i j and ys :: "real list"
  proof -
    from that have "4 * i + j < length ?P" using len by simp
    then have "(?P @ ys) ! (4 * i + j) = ?P ! (4 * i + j)" by (simp add: nth_append)
    with that n_pose show ?thesis using pose_rows_nth[of i ps j] by simp
  qed
  show ?thesis
  proof (cases "face_landmarks res")
    case None
    with pose have "extract_landmarks res = Some (?P @ replicate 1872 0)"
      by (simp add: extract_landmarks_Some)
    moreover have "length (?P @ replicate 1872 (0::real)) = 2004" using len by simp
    moreover have "drop 132 (?P @ replicate 1872 (0::real)) = replicate 1872 0"
      using len by simp
    ultimately show ?thesis using None cells by simp
  next
    case (Some fs)
    let ?F = "concat (map (\<lambda>l. [lm_x l, lm_y l, lm_z l, 0::real]) fs)"
    from Some n_face have n_fs: "length fs = 468" by simp
    have lenF: "length ?F = 1872" using length_face_rows[of fs] n_fs by simp
    from pose Some have "extract_landmarks res = Some (?P @ ?F)"
      by (simp add: extract_landmarks_Some)
    moreover have "length (?P @ ?F) = 2004" using len lenF by simp
    moreover have "(?P @ ?F) ! (132 + 4 * i + j)
                     = [lm_x (fs ! i), lm_y (fs ! i), lm_z (fs ! i), 0] ! j"
      if "i < 468" "j < 4" for i j
    proof -
      have "(?P @ ?F) ! (length ?P + (4 * i + j)) = ?F ! (4 * i + j)"
        by (rule nth_append_length_plus)
      with that n_fs show ?thesis using face_rows_nth[of i fs j] len by (simp add: add.assoc)
    qed
    ultimately show ?thesis using Some cells by simp
  qed
qed

theorem feature_vector_layout_witness:
  "\<exists>v. extract_landmarks
          \<lparr>pose_landmarks =
             Some (replicate 33 \<lparr>lm_x = 1/2, lm_y = 1/4, lm_z = 0, lm_visibility = 1\<rparr>),
           face_landmarks = None\<rparr> = Some v
       \<and> length v = 2004 \<and> v ! 0 = 1/2 \<and> v ! 131 = 1 \<and> drop 132 v = replicate 1872 0"
proof -
  let ?ps = "replicate 33 \<lparr>lm_x = 1/2, lm_y = 1/4, lm_z = 0, lm_visibility = 1::real\<rparr>"
  let ?res = "\<lparr>pose_landmarks = Some ?ps, face_landmarks = None\<rparr>"
  from feature_vector_layout[of ?res ?ps]
  obtain v where v: "extract_landmarks ?res = Some v" "length v = 2004"
    and cells: "\<forall>i < 33. \<forall>j < 4. v ! (4 * i + j)
                  = [lm_x (?ps ! i), lm_y (?ps ! i), lm_z (?ps ! i), lm_visibility (?ps ! i)] ! j"
    and zeros: "drop 132 v = replicate 1872 0"
    by auto
  have "v ! (4 * 0 + 0) = 1/2" using cells[rule_format, of 0 0] by simp
  moreover have "v ! (4 * 32 + 3) = 1" using cells[rule_format, of 32 3] by simp
  ultimately show ?thesis using v zeros by simp
qed

text \<open>
  Claim C6. \<^verbatim>\<open>_extract_landmarks\<close> returns \<^verbatim>\<open>None\<close> exactly when the pose landmarks are
  absent (so with a pose a vector is always built), and for a frame without a pose
  \<^verbatim>\<open>process_frame\<close> returns the prediction \<^verbatim>\<open>None\<close> whatever the model is.
\<close>

theorem feature_vector_gate:
  "(extract_landmarks res = None \<longleftrightarrow> pose_landmarks res = None)
   \<and> (pose_landmarks (holistic d frame) = None \<longrightarrow>
        process_frame d frame = (Annotated frame False None, None))"
  by (simp add: extract_landmarks_def process_frame_def Let_def split: option.splits)

theorem feature_vector_gate_witness:
  "extract_landmarks \<lparr>pose_landmarks = None, face_landmarks = None\<rparr> = None
   \<and> process_frame
        \<lparr>holistic = (\<lambda>_. \<lparr>pose_landmarks = None, face_landmarks = None\<rparr>),
         model = Some \<lparr>predict = (\<lambda>_. Some ''Open Palm''),
                       predict_proba = (\<lambda>_. Some [1]),
                       classes = [''Open Palm'']\<rparr>\<rparr>
        (7 :: nat)
      = (Annotated 7 False None, None)"
  using feature_vector_gate
          [of "\<lparr>pose_landmarks = None, face_landmarks = None\<rparr>"
              "\<lparr>holistic = (\<lambda>_. \<lparr>pose_landmarks = None, face_landmarks = None\<rparr>),
                model = Some \<lparr>predict = (\<lambda>_. Some ''Open Palm''),
                              predict_proba = (\<lambda>_. Some [1]),
                              classes = [''Open Palm'']\<rparr>\<rparr>"
              "7 :: nat"]
  by simp


end
